theory Spec2Isabelle
  imports Complex_Main "HOL-Library.Word" "HOL-Library.Multiset"
begin

section \<open>Masked-token construction of the MaskGIT training driver\<close>

text \<open>
  Shallow embedding of \<^verbatim>\<open>training/train_maskgit_imagenet.py\<close>: the closure
  \<^verbatim>\<open>train_step\<close> (lines 311-353), \<^verbatim>\<open>eval_step\<close> (lines 355-358) and the part of
  \<^verbatim>\<open>main\<close> that prepares what the closure captures (lines 109-111 and 171-192).

  Conventions of the model.
  \<^item> Integer tensors have dtype int64: an entry is a \<open>64 word\<close>, so \<open>+\<close> wraps as the
    tensor addition does, and \<open>-100\<close> is the word whose signed value is \<open>-100\<close>.
  \<^item> A 1-D tensor is a list; a 2-D tensor of shape \<open>(N, L)\<close> is a list of \<open>N\<close> rows of
    length \<open>L\<close> (\<open>is_tensor\<close>).
  \<^item> Floating-point tensors have dtype float32: an entry is a real number, and the
    operations of lines 325-331 round their results to float32 (\<open>to_f32\<close>: 24 significant
    bits, nearest, ties to even, subnormals below \<open>2 ^ (-126)\<close>). Infinities and NaN are not
    represented: the exponent range is unbounded above. The loss of the transformer and the
    two means of lines 351-352 are reals.
  \<^item> The global random generator is the sequence of uniform values it is going to
    produce; a call of \<^verbatim>\<open>torch.rand\<close> consumes a prefix and leaves the rest.
  \<^item> An exception is a value \<open>Inl e\<close> of the result type \<open>error + 'a\<close>.
  \<^item> The objects of other modules that the closure captures (the VQGAN encoder, the
    transformer, \<^verbatim>\<open>cosine_schedule\<close> of \<^verbatim>\<open>muse.sampling\<close>, the accelerator's
    \<^verbatim>\<open>gather\<close>) are fields of the environment record: every theorem holds for all of
    them.
\<close>

subsection \<open>Data\<close>

type_synonym i64 = "64 word"

type_synonym generator = "nat \<Rightarrow> real"

datatype error = ValueError string | IndexError | RuntimeError

datatype log_entry = Input_ids "i64 list list" | Labels "i64 list list"

text \<open>What \<^verbatim>\<open>train_step\<close> reads from its enclosing scope.\<close>

record 'px train_env =
  vq_encode :: "'px \<Rightarrow> i64 list list"
  num_embeddings :: i64
  model_loss :: "i64 list list \<Rightarrow> i64 list list \<Rightarrow> real"
  mask_id :: i64
  min_masking_rate :: real
  cfg_batch_size :: nat
  gather :: "real list \<Rightarrow> real list"
  cosine_schedule :: "real \<Rightarrow> real"

record 'px batch =
  pixel_values :: 'px
  class_id :: "i64 list"

text \<open>
  The values lines 317-341 compute. \<open>mc_num_token_masked\<close> and \<open>mc_mask\<close> are the locals
  \<^verbatim>\<open>num_token_masked\<close> and \<open>mask\<close>, kept so that their properties can be stated.
\<close>

record mc_out =
  mc_input_ids :: "i64 list list"
  mc_labels :: "i64 list list"
  mc_mask_prob :: "real list"
  mc_num_token_masked :: "real list"
  mc_mask :: "bool list list"

subsection \<open>Tensor primitives\<close>

definition is_tensor :: "nat \<Rightarrow> nat \<Rightarrow> 'a list list \<Rightarrow> bool" where
  "is_tensor N L t = (length t = N \<and> list_all (\<lambda>r. length r = L) t)"

text \<open>\<^verbatim>\<open>t.shape\<close> of a 2-D tensor; with no row the column count is not represented.\<close>

definition shape :: "'a list list \<Rightarrow> nat \<times> nat" where
  "shape t = (length t, case t of [] \<Rightarrow> 0 | r # _ \<Rightarrow> length r)"

text \<open>\<^verbatim>\<open>torch.rand(n)\<close> and \<^verbatim>\<open>torch.rand(n, l)\<close>: the values drawn and the generator left.\<close>

definition rand :: "nat \<Rightarrow> generator \<Rightarrow> real list \<times> generator" where
  "rand n g = (map g [0..<n], \<lambda>k. g (n + k))"

definition rand2 :: "nat \<Rightarrow> nat \<Rightarrow> generator \<Rightarrow> real list list \<times> generator" where
  "rand2 n l g = (map (\<lambda>i. map (\<lambda>j. g (i * l + j)) [0..<l]) [0..<n], \<lambda>k. g (n * l + k))"

text \<open>Rounding to the nearest integer, a tie to the even one.\<close>

definition round_half_even :: "real \<Rightarrow> int" where
  "round_half_even x =
     (let f = \<lfloor>x\<rfloor>; d = x - of_int f
      in if d < 1 / 2 then f else if 1 / 2 < d then f + 1 else if even f then f else f + 1)"

text \<open>
  Conversion to float32. A value \<open>x\<close> with \<open>2 ^ k \<le> |x| < 2 ^ (k + 1)\<close> is rounded to a
  multiple of \<open>2 ^ (k - 23)\<close>, a tie to the even multiple; below \<open>2 ^ (-126)\<close> the spacing
  stays \<open>2 ^ (-149)\<close>.
\<close>

definition f32_exponent :: "real \<Rightarrow> int" where
  "f32_exponent x = max \<lfloor>log 2 \<bar>x\<bar>\<rfloor> (- 126)"

definition to_f32 :: "real \<Rightarrow> real" where
  "to_f32 x =
     (if x = 0 then 0
      else let u = 2 powi (f32_exponent x - 23) in of_int (round_half_even (x / u)) * u)"

text \<open>The product of two float32 values.\<close>

definition f32_mul :: "real \<Rightarrow> real \<Rightarrow> real" where
  "f32_mul a b = to_f32 (a * b)"

text \<open>
  \<^verbatim>\<open>x.clip(lo)\<close> and \<^verbatim>\<open>x.clamp(min=lo)\<close> on a float32 tensor: a lower bound only, and the
  bound, a Python number, is converted to float32 first.
\<close>

definition clip :: "real \<Rightarrow> real \<Rightarrow> real" where
  "clip x lo = max x (to_f32 lo)"

definition clamp_min :: "real \<Rightarrow> real \<Rightarrow> real" where
  "clamp_min x lo = max x (to_f32 lo)"

text \<open>\<^verbatim>\<open>torch.round\<close> rounds to the nearest integer, a tie to the even one.\<close>

definition tensor_round :: "real \<Rightarrow> real" where
  "tensor_round x = of_int (round_half_even x)"

text \<open>
  \<^verbatim>\<open>x.argsort(dim=-1)\<close> of one row: the indices of the row in ascending order of their
  values. Equal values keep their index order here; torch leaves that order open, and
  nothing below depends on it.
\<close>

definition argsort :: "real list \<Rightarrow> nat list" where
  "argsort xs = map snd (sort_key fst (zip xs [0..<length xs]))"

text \<open>
  \<^verbatim>\<open>torch.cat([col.unsqueeze(-1), rows], dim=-1)\<close>: the sizes must agree in dimension 0.
\<close>

definition cat_col :: "'a list \<Rightarrow> 'a list list \<Rightarrow> error + 'a list list" where
  "cat_col col rows =
     (if length col = length rows then Inr (map2 (#) col rows) else Inl RuntimeError)"

text \<open>\<^verbatim>\<open>x.repeat(n)\<close> of a scalar and of a vector; \<^verbatim>\<open>x.mean()\<close>, which is nan on no element.\<close>

definition repeat_vec :: "real list \<Rightarrow> nat \<Rightarrow> real list" where
  "repeat_vec xs n = concat (replicate n xs)"

definition mean :: "real list \<Rightarrow> real option" where
  "mean xs = (if xs = [] then None else Some (sum_list xs / real (length xs)))"

subsection \<open>Mask construction: lines 317-341 of \<^verbatim>\<open>train_step\<close>\<close>

text \<open>
  In line 328 the Python integer \<^verbatim>\<open>seq_len\<close> is converted to float32 and multiplied in
  float32; in line 331 the int64 indices are converted to float32 for the comparison.
\<close>

definition mask_construction ::
  "'px train_env \<Rightarrow> i64 list list \<Rightarrow> i64 list \<Rightarrow> generator \<Rightarrow> error + (mc_out \<times> generator)"
where
  "mask_construction env image_tokens class_id0 g =
     (let (batch_size, seq_len) = shape image_tokens;
          (timesteps, g1) = rand batch_size g;
          mask_prob = map (cosine_schedule env) timesteps;
          mask_prob = map (\<lambda>p. clip p (min_masking_rate env)) mask_prob;
          num_token_masked =
            map (\<lambda>p. clamp_min (tensor_round (f32_mul (to_f32 (real seq_len)) p)) 1) mask_prob;
          (u, g2) = rand2 batch_size seq_len g1;
          batch_randperm = map argsort u;
          mask = map2 (\<lambda>perm k. map (\<lambda>r. to_f32 (real r) < k) perm)
                   batch_randperm num_token_masked;
          input_ids = map2 (map2 (\<lambda>m t. if m then mask_id env else t)) mask image_tokens;
          labels = map2 (map2 (\<lambda>m t. if m then t else - 100)) mask image_tokens;
          class_ids = map (\<lambda>c. c + num_embeddings env) class_id0
      in case cat_col class_ids input_ids of
           Inl e \<Rightarrow> Inl e
         | Inr input_ids \<Rightarrow>
            (case cat_col (map (\<lambda>c. - 100 * 1) class_ids) labels of
               Inl e \<Rightarrow> Inl e
             | Inr labels \<Rightarrow>
                 Inr (\<lparr>mc_input_ids = input_ids, mc_labels = labels,
                       mc_mask_prob = mask_prob, mc_num_token_masked = num_token_masked,
                       mc_mask = mask\<rparr>, g2)))"

subsection \<open>\<^verbatim>\<open>train_step\<close> and \<^verbatim>\<open>eval_step\<close>\<close>

text \<open>
  A step returns the triple \<^verbatim>\<open>(loss, avg_loss, avg_masking_rate)\<close>, what it wrote to the
  logger, and the generator it leaves behind. The gradient bookkeeping of
  \<^verbatim>\<open>accelerator.accumulate\<close> and \<^verbatim>\<open>torch.no_grad\<close> changes no value and is left out.
\<close>

definition train_step ::
  "'px train_env \<Rightarrow> 'px batch \<Rightarrow> bool \<Rightarrow> generator
     \<Rightarrow> error + ((real \<times> real option \<times> real option) \<times> log_entry list \<times> generator)"
where
  "train_step env b log_first_batch g =
     (let image_tokens = vq_encode env (pixel_values b)
      in case mask_construction env image_tokens (class_id b) g of
           Inl e \<Rightarrow> Inl e
         | Inr (mc, g') \<Rightarrow>
            (let logged = (if log_first_batch
                           then [Input_ids (mc_input_ids mc), Labels (mc_labels mc)] else []);
                 loss = model_loss env (mc_input_ids mc) (mc_labels mc);
                 avg_loss = mean (gather env (replicate (cfg_batch_size env) loss));
                 avg_masking_rate =
                   mean (gather env (repeat_vec (mc_mask_prob mc) (cfg_batch_size env)))
             in Inr ((loss, avg_loss, avg_masking_rate), logged, g')))"

definition eval_step ::
  "'px train_env \<Rightarrow> 'px batch \<Rightarrow> generator
     \<Rightarrow> error + (real option \<times> log_entry list \<times> generator)"
where
  "eval_step env b g =
     (case train_step env b False g of
        Inl e \<Rightarrow> Inl e
      | Inr ((_, avg_loss, _), logged, g') \<Rightarrow> Inr (avg_loss, logged, g'))"

subsection \<open>Setup in \<^verbatim>\<open>main\<close>: lines 109-111 and 171-192\<close>

text \<open>
  What \<^verbatim>\<open>main\<close> has obtained from its configuration and from the constructors of other
  modules once they have returned: the VQGAN, the transformer with its configured
  \<^verbatim>\<open>mask_token_id\<close>, the training options and the column names of the dataset.
\<close>

record datasets_config =
  dc_path :: string
  dc_image_column :: "string option"
  dc_label_column :: "string option"

record 'px main_inputs =
  in_vq_encode :: "'px \<Rightarrow> i64 list list"
  in_num_embeddings :: i64
  in_model_loss :: "i64 list list \<Rightarrow> i64 list list \<Rightarrow> real"
  in_mask_token_id :: i64
  in_min_masking_rate :: real
  in_batch_size :: nat
  in_gather :: "real list \<Rightarrow> real list"
  in_cosine_schedule :: "real \<Rightarrow> real"
  in_datasets_config :: datasets_config
  in_column_names :: "string list"

definition dataset_name_mapping :: "string \<rightharpoonup> string \<times> string" where
  "dataset_name_mapping =
     [''imagenet-1k'' \<mapsto> (''image'', ''label''), ''cifar10'' \<mapsto> (''img'', ''label'')]"

text \<open>\<^verbatim>\<open>xs[i]\<close> for \<open>i \<ge> 0\<close>, raising IndexError out of range.\<close>

definition get_item :: "'a list \<Rightarrow> nat \<Rightarrow> error + 'a" where
  "get_item xs i = (if i < length xs then Inr (xs ! i) else Inl IndexError)"

text \<open>
  Lines 171-192: the image and label columns. The \<open>ValueError\<close> carries the rejected
  column name instead of the formatted message.
\<close>

definition select_column ::
  "string option \<Rightarrow> (string \<times> string) option \<Rightarrow> string list \<Rightarrow> nat \<Rightarrow> error + string"
where
  "select_column configured dataset_columns column_names k =
     (case configured of
        None \<Rightarrow>
          (case dataset_columns of
             Some cols \<Rightarrow> Inr (if k = 0 then fst cols else snd cols)
           | None \<Rightarrow> get_item column_names k)
      | Some c \<Rightarrow> if c \<notin> set column_names then Inl (ValueError c) else Inr c)"

definition main_setup :: "'px main_inputs \<Rightarrow> error + ('px train_env \<times> string \<times> string)" where
  "main_setup inp =
     (let mask_id0 = in_mask_token_id inp;
          datasets_config = in_datasets_config inp;
          column_names = in_column_names inp;
          dataset_columns = dataset_name_mapping (dc_path datasets_config)
      in case select_column (dc_image_column datasets_config) dataset_columns column_names 0 of
           Inl e \<Rightarrow> Inl e
         | Inr image_column \<Rightarrow>
            (case select_column (dc_label_column datasets_config) dataset_columns column_names 1 of
               Inl e \<Rightarrow> Inl e
             | Inr label_column \<Rightarrow>
                 Inr (\<lparr>vq_encode = in_vq_encode inp,
                       num_embeddings = in_num_embeddings inp,
                       model_loss = in_model_loss inp,
                       mask_id = mask_id0,
                       min_masking_rate = in_min_masking_rate inp,
                       cfg_batch_size = in_batch_size inp,
                       gather = in_gather inp,
                       cosine_schedule = in_cosine_schedule inp\<rparr>,
                      image_column, label_column)))"

subsection \<open>The spec's clamp\<close>

text \<open>\<open>clamp(x, lo, hi)\<close> as the specification writes it, on integers.\<close>

definition spec_clamp :: "int \<Rightarrow> int \<Rightarrow> int \<Rightarrow> int" where
  "spec_clamp x lo hi = min (max x lo) hi"

subsection \<open>A concrete run\<close>

text \<open>
  Modelled from the spec: \<^verbatim>\<open>cosine_schedule\<close> lives in \<^verbatim>\<open>muse.sampling\<close>, which is not part of
  the sources at hand; the specification gives it as \<open>cos(t \<cdot> \<pi>/2)\<close>. It is used for the
  concrete runs only: the theorems hold for every schedule.
\<close>

definition spec_cosine_schedule :: "real \<Rightarrow> real" where
  "spec_cosine_schedule t = cos (t * pi / 2)"

text \<open>
  An environment with the constants of the specification's example (\<open>V = 100\<close>, mask token
  id \<open>200\<close>), an encoder that returns the given tokens, a single process (\<open>gather\<close> is the
  identity) and a generator that repeats five values.
\<close>

definition example_env :: "i64 list list \<Rightarrow> unit train_env" where
  "example_env toks =
     \<lparr>vq_encode = (\<lambda>_. toks), num_embeddings = 100, model_loss = (\<lambda>_ _. 1), mask_id = 200,
      min_masking_rate = 0, cfg_batch_size = 1, gather = (\<lambda>xs. xs),
      cosine_schedule = spec_cosine_schedule\<rparr>"

text \<open>The same environment with a schedule that returns \<open>p\<close> at every timestep.\<close>

definition example_schedule_env :: "real \<Rightarrow> unit train_env" where
  "example_schedule_env p = (example_env []) \<lparr>cosine_schedule := (\<lambda>_. p)\<rparr>"

fun example_generator :: generator where
  "example_generator 0 = 2 / 3"
| "example_generator (Suc 0) = 1 / 4"
| "example_generator (Suc (Suc 0)) = 1 / 2"
| "example_generator (Suc (Suc (Suc 0))) = 1 / 8"
| "example_generator (Suc (Suc (Suc (Suc 0)))) = 3 / 8"
| "example_generator (Suc (Suc (Suc (Suc (Suc k))))) = example_generator k"

definition example_inputs :: "i64 \<Rightarrow> unit main_inputs" where
  "example_inputs m =
     \<lparr>in_vq_encode = (\<lambda>_. [[5, 6, 7, 8]]), in_num_embeddings = 100, in_model_loss = (\<lambda>_ _. 1),
      in_mask_token_id = m, in_min_masking_rate = 0, in_batch_size = 1,
      in_gather = (\<lambda>xs. xs), in_cosine_schedule = spec_cosine_schedule,
      in_datasets_config =
        \<lparr>dc_path = ''imagenet-1k'', dc_image_column = None, dc_label_column = None\<rparr>,
      in_column_names = [''image'', ''label'']\<rparr>"

section \<open>Properties\<close>

subsection \<open>The exponent of a float32 value\<close>

lemma floor_log2_eq:
  assumes "x \<noteq> 0"
  shows "\<lfloor>log 2 \<bar>x\<bar>\<rfloor> = k \<longleftrightarrow> 2 powi k \<le> \<bar>x\<bar> \<and> \<bar>x\<bar> < 2 powi (k + 1)"
proof -
  have "2 powr real_of_int j = (2::real) powi j" for j
    by (rule powr_real_of_int') simp_all
  from this [of k] this [of "k + 1"] show ?thesis
    using floor_log_eq_powr_iff [of "\<bar>x\<bar>" 2 k] assms by simp
qed

lemma f32_exponent_ge: "- 126 \<le> f32_exponent x"
  by (simp add: f32_exponent_def)

lemma f32_exponent_upper:
  assumes "x \<noteq> 0"
  shows "\<bar>x\<bar> < 2 powi (f32_exponent x + 1)"
proof -
  define k where "k = \<lfloor>log 2 \<bar>x\<bar>\<rfloor>"
  have "\<bar>x\<bar> < 2 powi (k + 1)"
    using floor_log2_eq [OF assms, of k] by (simp add: k_def)
  also have "\<dots> \<le> 2 powi (f32_exponent x + 1)"
    by (intro power_int_increasing) (simp_all add: f32_exponent_def k_def)
  finally show ?thesis .
qed

lemma f32_exponent_lower:
  assumes "x \<noteq> 0" and "- 126 < f32_exponent x"
  shows "2 powi f32_exponent x \<le> \<bar>x\<bar>"
proof -
  define k where "k = \<lfloor>log 2 \<bar>x\<bar>\<rfloor>"
  have "f32_exponent x = k"
    using assms(2) by (simp add: f32_exponent_def k_def max_def split: if_splits)
  then show ?thesis
    using floor_log2_eq [OF assms(1), of k] by (simp add: k_def)
qed

lemma f32_exponent_eqI:
  assumes "x \<noteq> 0" and "- 126 \<le> k" and "k = - 126 \<or> 2 powi k \<le> \<bar>x\<bar>" and "\<bar>x\<bar> < 2 powi (k + 1)"
  shows "f32_exponent x = k"
proof (rule antisym)
  show "f32_exponent x \<le> k"
  proof (rule ccontr)
    assume "\<not> f32_exponent x \<le> k"
    then have gt: "k + 1 \<le> f32_exponent x" and "- 126 < f32_exponent x"
      using assms(2) by simp_all
    then have "2 powi f32_exponent x \<le> \<bar>x\<bar>"
      using f32_exponent_lower assms(1) by blast
    moreover have "(2::real) powi (k + 1) \<le> 2 powi f32_exponent x"
      using gt by (intro power_int_increasing) simp_all
    ultimately show False
      using assms(4) by linarith
  qed
  show "k \<le> f32_exponent x"
  proof (rule ccontr)
    assume "\<not> k \<le> f32_exponent x"
    then have lt: "f32_exponent x + 1 \<le> k"
      by simp
    then have "k \<noteq> - 126"
      using f32_exponent_ge [of x] by linarith
    then have "2 powi k \<le> \<bar>x\<bar>"
      using assms(3) by simp
    moreover have "(2::real) powi (f32_exponent x + 1) \<le> 2 powi k"
      using lt by (intro power_int_increasing) simp_all
    ultimately show False
      using f32_exponent_upper [OF assms(1)] by linarith
  qed
qed



subsection \<open>Rounding to an integer\<close>

lemma round_half_even_of_int [simp]: "round_half_even (of_int n) = n"
  by (simp add: round_half_even_def Let_def)

lemma round_half_even_bounds:
  "x - 1 / 2 \<le> of_int (round_half_even x)" "of_int (round_half_even x) \<le> x + 1 / 2"
  unfolding round_half_even_def Let_def by (auto; linarith)+



subsection \<open>Conversion to float32: sign, order, values it leaves unchanged\<close>

lemma round_half_even_zero [simp]: "round_half_even 0 = 0"
  using round_half_even_of_int [of 0] by simp

lemma round_half_even_numeral [simp]: "round_half_even (numeral w) = numeral w"
  using round_half_even_of_int [of "numeral w"] by simp

lemma to_f32_zero [simp]: "to_f32 0 = 0"
  by (simp add: to_f32_def)

lemma to_f32_eval:
  assumes "x \<noteq> 0" and "- 126 \<le> k" and "k = - 126 \<or> 2 powi k \<le> \<bar>x\<bar>" and "\<bar>x\<bar> < 2 powi (k + 1)"
  shows "to_f32 x = of_int (round_half_even (x / 2 powi (k - 23))) * 2 powi (k - 23)"
  using assms(1) f32_exponent_eqI [OF assms] by (simp add: to_f32_def Let_def)




lemma pow2_product: "(2::real) powi a * 2 powi b = 2 powi (a + b)"
  by (simp add: power_int_add)



lemma to_f32_exact:
  assumes m: "of_int m = x * 2 ^ c" and bound: "\<bar>m\<bar> < 2 ^ 24" and c: "c \<le> 149"
  shows "to_f32 x = x"
proof (cases "x = 0")
  case True
  then show ?thesis by simp
next
  case False
  define e where "e = f32_exponent x"
  define u :: real where "u = 2 powi (e - 23)"
  have u: "0 < u"
    by (simp add: u_def)
  have absm: "\<bar>x\<bar> * 2 ^ c < 2 ^ 24"
  proof -
    have "\<bar>x\<bar> * 2 ^ c = \<bar>of_int m :: real\<bar>"
      by (simp add: m abs_mult)
    also have "\<dots> = of_int \<bar>m\<bar>"
      by simp
    also have "\<dots> < of_int (2 ^ 24)"
      using bound by (simp only: of_int_less_iff)
    finally show ?thesis by simp
  qed
  have e_le: "e \<le> 23 - int c"
  proof (rule ccontr)
    assume "\<not> e \<le> 23 - int c"
    then have gt: "24 - int c \<le> e" and "- 126 < e"
      using c by simp_all
    then have "2 powi e \<le> \<bar>x\<bar>"
      using f32_exponent_lower [OF False] by (simp add: e_def)
    moreover have "(2::real) powi (24 - int c) \<le> 2 powi e"
      using gt by (intro power_int_increasing) simp_all
    ultimately have "2 powi (24 - int c) * 2 ^ c \<le> \<bar>x\<bar> * 2 ^ c"
      by (intro mult_right_mono) simp_all
    moreover have "(2::real) powi (24 - int c) * 2 ^ c = 2 ^ 24"
    proof -
      have "24 - int c + int c = 24"
        by simp
      then have "(2::real) powi (24 - int c) * 2 powi (int c) = 2 powi 24"
        by (simp only: pow2_product)
      then show ?thesis by simp
    qed
    ultimately show False
      using absm by linarith
  qed
  define k where "k = nat (23 - int c - e)"
  have split: "(2::real) powi (23 - e) = 2 ^ c * 2 ^ k"
  proof -
    have "int c + int k = 23 - e"
      using e_le by (simp add: k_def)
    then have "(2::real) powi (int c) * 2 powi (int k) = 2 powi (23 - e)"
      by (simp only: pow2_product)
    then show ?thesis by simp
  qed
  have "x / u = x * 2 powi (23 - e)"
    by (simp add: u_def power_int_diff field_simps)
  also have "\<dots> = of_int m * 2 ^ k"
    by (simp add: split m)
  also have "\<dots> = of_int (m * 2 ^ k)"
    by simp
  finally have q: "x / u = of_int (m * 2 ^ k)" .
  have "to_f32 x = of_int (round_half_even (x / u)) * u"
    using False by (simp add: to_f32_def Let_def u_def e_def)
  also have "\<dots> = x / u * u"
    unfolding q round_half_even_of_int ..
  also have "\<dots> = x"
    using u by simp
  finally show ?thesis .
qed

lemma to_f32_of_nat: "n < 2 ^ 24 \<Longrightarrow> to_f32 (real n) = real n"
  by (rule to_f32_exact [where m = "int n" and c = 0]) simp_all

lemma to_f32_numeral [simp]: "numeral w < (2 ^ 24 :: nat) \<Longrightarrow> to_f32 (numeral w) = numeral w"
  using to_f32_of_nat [of "numeral w"] by simp

lemma to_f32_one [simp]: "to_f32 1 = 1"
  using to_f32_of_nat [of 1] by simp


lemma to_f32_of_nat_le:
  assumes "n \<le> 2 ^ 24"
  shows "to_f32 (real n) = real n"
proof (cases "n < 2 ^ 24")
  case True
  then show ?thesis by (rule to_f32_of_nat)
next
  case False
  with assms have "n = 2 ^ 24"
    by simp
  then show ?thesis
    by (simp add: to_f32_eval [of _ 24])
qed

text \<open>
  Above \<open>2 ^ 24\<close> the conversion of an integer is no longer exact: the index \<open>2 ^ 24 + 3\<close>
  becomes \<open>2 ^ 24 + 4\<close>, and so does not compare below a count of \<open>2 ^ 24 + 4\<close> in line 331.
\<close>

lemma to_f32_index_rounds: "to_f32 (real 16777219) = 16777220"
  by (simp add: to_f32_eval [of _ 24] round_half_even_def)

subsection \<open>Sorting indices gives a permutation; counting ranks below a bound\<close>

lemma mset_argsort: "mset (argsort xs) = mset [0..<length xs]"
proof -
  have "mset (map snd (sort_key fst zs)) = mset (map snd zs)" for zs :: "(real \<times> nat) list"
    by simp
  then have "mset (argsort xs) = mset (map snd (zip xs [0..<length xs]))"
    unfolding argsort_def .
  also have "map snd (zip xs [0..<length xs]) = [0..<length xs]"
    by simp
  finally show ?thesis .
qed

lemma length_argsort: "length (argsort xs) = length xs"
  by (simp add: argsort_def)

lemma length_filter_less_upt: "length (filter (\<lambda>r. r < c) [0..<L]) = min c L"
  by (induction L) auto

lemma count_less_perm:
  assumes "mset p = mset [0..<L]"
  shows "length (filter (\<lambda>r. r < c) p) = min c L"
proof -
  have "length (filter (\<lambda>r. r < c) p) = size (mset (filter (\<lambda>r. r < c) p))"
    by (simp only: size_mset)
  also have "\<dots> = size (filter_mset (\<lambda>r. r < c) (mset p))"
    by (simp only: mset_filter)
  also have "\<dots> = size (mset (filter (\<lambda>r. r < c) [0..<L]))"
    by (simp only: assms mset_filter)
  also have "\<dots> = length (filter (\<lambda>r. r < c) [0..<L])"
    by (simp only: size_mset)
  finally show ?thesis
    by (simp only: length_filter_less_upt)
qed

lemma count_nth_tail:
  "length (filter (\<lambda>j. (x # xs) ! j = a) [1..<length xs + 1]) = length (filter (\<lambda>y. y = a) xs)"
proof -
  have "[1..<length xs + 1] = map Suc [0..<length xs]"
    by (simp add: map_Suc_upt)
  then have "length (filter (\<lambda>j. (x # xs) ! j = a) [1..<length xs + 1])
      = length (filter (\<lambda>j. xs ! j = a) [0..<length xs])"
    by (simp add: filter_map o_def)
  also have "\<dots> = length (filter (\<lambda>y. y = a) (map (nth xs) [0..<length xs]))"
    by (simp add: filter_map o_def)
  finally show ?thesis by (simp add: map_nth)
qed

lemma count_where_mask:
  assumes "length ms = length ts" and "list_all (\<lambda>t. t \<noteq> a) ts"
  shows "length (filter (\<lambda>y. y = a) (map2 (\<lambda>m t. if m then a else t) ms ts))
           = length (filter id ms)"
  using assms by (induction ms ts rule: list_induct2) auto

lemma count_true_map: "length (filter id (map P xs)) = length (filter P xs)"
  by (simp add: filter_map o_def)

lemma num_masked_int:
  "clamp_min (tensor_round x) 1 = of_int (max (round_half_even x) 1)"
  by (simp add: clamp_min_def tensor_round_def)

lemma count_mask_row:
  assumes "mset p = mset [0..<L]" and "L \<le> 2 ^ 24"
  shows "int (length (filter (\<lambda>r. to_f32 (real r) < clamp_min (tensor_round x) 1) p))
           = min (max (round_half_even x) 1) (int L)"
proof -
  define m where "m = max (round_half_even x) 1"
  have m: "1 \<le> m" by (simp add: m_def)
  have "set p = set [0..<L]"
    using assms(1) by (rule mset_eq_setD)
  then have "to_f32 (real r) = real r" if "r \<in> set p" for r
    using that assms(2) by (intro to_f32_of_nat_le) simp
  moreover have "(real r < of_int m) = (r < nat m)" for r
    using m by linarith
  ultimately have "filter (\<lambda>r. to_f32 (real r) < clamp_min (tensor_round x) 1) p
      = filter (\<lambda>r. r < nat m) p"
    by (intro filter_cong) (simp_all add: num_masked_int m_def [symmetric])
  then have "length (filter (\<lambda>r. to_f32 (real r) < clamp_min (tensor_round x) 1) p) = min (nat m) L"
    by (simp only: count_less_perm [OF assms(1)])
  then show ?thesis
    using m by (simp add: m_def [symmetric])
qed

subsection \<open>What mask construction returns on a tensor\<close>

lemma shape_tensor: "is_tensor N L t \<Longrightarrow> shape t = (N, if N = 0 then 0 else L)"
  by (cases t) (auto simp: is_tensor_def shape_def)

lemma is_tensor_nth: "is_tensor N L t \<Longrightarrow> i < N \<Longrightarrow> length (t ! i) = L"
  by (simp add: is_tensor_def list_all_length)

lemma mask_construction_tensor:
  assumes t: "is_tensor N L toks" and c: "length cls = N"
  shows "\<exists>r. mask_construction env toks cls g = Inr (r, \<lambda>k. g (N + (N * L + k))) \<and>
     length (mc_input_ids r) = N \<and> length (mc_labels r) = N \<and>
     length (mc_mask_prob r) = N \<and> length (mc_num_token_masked r) = N \<and>
     length (mc_mask r) = N \<and>
     (\<forall>i<N. mc_mask_prob r ! i = clip (cosine_schedule env (g i)) (min_masking_rate env) \<and>
        mc_num_token_masked r ! i
          = clamp_min (tensor_round (f32_mul (to_f32 (real L)) (mc_mask_prob r ! i))) 1 \<and>
        mc_mask r ! i =
          map (\<lambda>rk. to_f32 (real rk) < mc_num_token_masked r ! i)
            (argsort (map (\<lambda>j. g (N + (i * L + j))) [0..<L])) \<and>
        mc_input_ids r ! i =
          (cls ! i + num_embeddings env)
            # map2 (\<lambda>m t. if m then mask_id env else t) (mc_mask r ! i) (toks ! i) \<and>
        mc_labels r ! i =
          (- 100) # map2 (\<lambda>m t. if m then t else - 100) (mc_mask r ! i) (toks ! i))"
proof -
  define L' where "L' = (if N = 0 then 0 else L)"
  have sh: "shape toks = (N, L')"
    using t by (simp add: shape_tensor L'_def)
  have NL: "N * L' = N * L"
    by (simp add: L'_def)
  have lt: "length toks = N"
    using t by (simp add: is_tensor_def)
  have L': "i < N \<Longrightarrow> L' = L" for i
    by (auto simp: L'_def)
  show ?thesis
    using c lt
    apply (simp add: mask_construction_def sh rand_def rand2_def cat_col_def Let_def NL)
    apply (auto simp: L')
    done
qed

lemma mask_construction_rows:
  assumes "is_tensor N L toks" and "length cls = N"
  obtains r where
    "mask_construction env toks cls g = Inr (r, \<lambda>k. g (N + (N * L + k)))"
    "length (mc_input_ids r) = N" "length (mc_labels r) = N"
    "length (mc_mask_prob r) = N" "length (mc_num_token_masked r) = N" "length (mc_mask r) = N"
    "\<And>i. i < N \<Longrightarrow> mc_mask_prob r ! i = clip (cosine_schedule env (g i)) (min_masking_rate env)"
    "\<And>i. i < N \<Longrightarrow>
       mc_num_token_masked r ! i
         = clamp_min (tensor_round (f32_mul (to_f32 (real L)) (mc_mask_prob r ! i))) 1"
    "\<And>i. i < N \<Longrightarrow>
       mc_mask r ! i = map (\<lambda>rk. to_f32 (real rk) < mc_num_token_masked r ! i)
                         (argsort (map (\<lambda>j. g (N + (i * L + j))) [0..<L]))"
    "\<And>i. i < N \<Longrightarrow>
       mc_input_ids r ! i = (cls ! i + num_embeddings env)
          # map2 (\<lambda>m t. if m then mask_id env else t) (mc_mask r ! i) (toks ! i)"
    "\<And>i. i < N \<Longrightarrow>
       mc_labels r ! i = (- 100) # map2 (\<lambda>m t. if m then t else - 100) (mc_mask r ! i) (toks ! i)"
  using mask_construction_tensor [OF assms, of env g] by blast

lemma length_mask_row:
  assumes "mc_mask r ! i = map P (argsort (map f [0..<L]))"
  shows "length (mc_mask r ! i) = L"
  by (simp add: assms length_argsort)

subsection \<open>Concrete runs\<close>

lemma spec_cosine_schedule_two_thirds: "spec_cosine_schedule (2 / 3) = 1 / 2"
  by (simp add: spec_cosine_schedule_def cos_60)

lemmas run_defs =
  mask_construction_def shape_def rand_def rand2_def clip_def clamp_min_def tensor_round_def
  f32_mul_def round_half_even_def argsort_def cat_col_def Let_def upt_conv_Cons

text \<open>The example of the specification: masked positions 1 and 3 of four tokens.\<close>

lemma example_run:
  "map_sum id fst (mask_construction (example_env []) [[5, 6, 7, 8]] [2] example_generator)
     = Inr \<lparr>mc_input_ids = [[102, 5, 200, 7, 200]], mc_labels = [[- 100, - 100, 6, - 100, 8]],
            mc_mask_prob = [1 / 2], mc_num_token_masked = [2],
            mc_mask = [[False, True, False, True]]\<rparr>"
  by (simp add: run_defs example_env_def spec_cosine_schedule_two_thirds)

lemma example_tensor: "is_tensor 1 4 [[5, 6, 7, 8 :: i64]]"
  by (simp add: is_tensor_def)

subsection \<open>Draws read by one mask construction\<close>

lemma row_index_bound: "i < n \<Longrightarrow> j < l \<Longrightarrow> i * l + j < n * (l::nat)"
proof -
  assume "i < n" and "j < l"
  then have "i * l + j < Suc i * l" by simp
  also have "\<dots> \<le> n * l" using \<open>i < n\<close> by (intro mult_le_mono1) simp
  finally show ?thesis .
qed

lemma rand_cong:
  assumes "\<forall>k<n + m. g1 k = g2 (k::nat)"
  shows "fst (rand n g1) = fst (rand n g2)"
  using assms by (simp add: rand_def)

lemma rand2_cong:
  assumes "\<forall>k<n + n * l. g1 k = g2 (k::nat)"
  shows "fst (rand2 n l (snd (rand n g1))) = fst (rand2 n l (snd (rand n g2)))"
proof -
  have "g1 (n + (i * l + j)) = g2 (n + (i * l + j))" if "i < n" "j < l" for i j
    using assms row_index_bound [OF that] by simp
  then show ?thesis
    by (simp add: rand_def rand2_def)
qed

subsection \<open>Rounding\<close>


section \<open>The claims\<close>

text \<open>
  C1. The claim: for every batch of tokens of shape \<open>(N, L)\<close> with \<open>L \<ge> 1\<close> and every image
  \<open>i\<close>, the number of positions \<open>j\<close> in \<open>1..L\<close> with \<open>input_ids[i, j]\<close> equal to the mask token
  id is \<open>clamp(round(L \<times> mask_prob\<^sub>i), 1, L)\<close>. As amended: for \<open>1 \<le> L \<le> 2 ^ 24\<close> the number
  of positions where \<open>mask\<close> is true is \<open>clamp(round(L \<otimes> mask_prob\<^sub>i), 1, L)\<close>, where \<open>\<otimes>\<close>
  is the float32 product of line 328, although the code clamps the count from below
  only; the number of positions \<open>1..L\<close> where \<open>input_ids\<close> is the mask token id is the same
  when no token of the image is the mask token id. The bound on \<open>L\<close> keeps the conversion
  of the indices to float32 in line 331 exact.
\<close>

theorem masked_count:
  assumes "is_tensor N L image_tokens" and "1 \<le> L" and "L \<le> 2 ^ 24"
    and "length cls = N" and "i < N"
  shows "\<exists>r g'. mask_construction env image_tokens cls g = Inr (r, g') \<and>
     int (length (filter id (mc_mask r ! i)))
       = spec_clamp (round_half_even (f32_mul (to_f32 (real L)) (mc_mask_prob r ! i))) 1 (int L) \<and>
     (list_all (\<lambda>t. t \<noteq> mask_id env) (image_tokens ! i) \<longrightarrow>
        int (length (filter (\<lambda>j. mc_input_ids r ! i ! j = mask_id env) [1..<L + 1]))
          = spec_clamp (round_half_even (f32_mul (to_f32 (real L)) (mc_mask_prob r ! i))) 1
              (int L))"
proof (rule mask_construction_rows [OF assms(1,4), of env g], goal_cases)
  case (1 r)
  define u where "u = map (\<lambda>j. g (N + (i * L + j))) [0..<L]"
  define x where "x = f32_mul (to_f32 (real L)) (mc_mask_prob r ! i)"
  have k: "mc_num_token_masked r ! i = clamp_min (tensor_round x) 1"
    using 1(8) [OF \<open>i < N\<close>] by (simp add: x_def)
  have mask: "mc_mask r ! i = map (\<lambda>rk. to_f32 (real rk) < clamp_min (tensor_round x) 1) (argsort u)"
    using 1(9) [OF \<open>i < N\<close>] k by (simp add: u_def)
  have inp: "mc_input_ids r ! i =
      (cls ! i + num_embeddings env)
        # map2 (\<lambda>m t. if m then mask_id env else t) (mc_mask r ! i) (image_tokens ! i)"
    using 1(10) [OF \<open>i < N\<close>] .
  have perm: "mset (argsort u) = mset [0..<L]"
    using mset_argsort [of u] by (simp add: u_def)
  have len_mask: "length (mc_mask r ! i) = L"
    by (simp add: mask length_argsort u_def)
  have len_tok: "length (image_tokens ! i) = L"
    using assms(1) \<open>i < N\<close> by (rule is_tensor_nth)
  have cnt: "int (length (filter id (mc_mask r ! i))) = spec_clamp (round_half_even x) 1 (int L)"
    by (simp only: mask count_true_map count_mask_row [OF perm \<open>L \<le> 2 ^ 24\<close>] spec_clamp_def)
  have cnt_inp: "int (length (filter (\<lambda>j. mc_input_ids r ! i ! j = mask_id env) [1..<L + 1]))
      = spec_clamp (round_half_even x) 1 (int L)"
    if distinct_mask: "list_all (\<lambda>t. t \<noteq> mask_id env) (image_tokens ! i)"
  proof -
    define row where "row = map2 (\<lambda>m t. if m then mask_id env else t) (mc_mask r ! i) (image_tokens ! i)"
    have lr: "length row = L"
      by (simp add: row_def len_mask len_tok)
    have "length (filter (\<lambda>j. mc_input_ids r ! i ! j = mask_id env) [1..<L + 1])
        = length (filter (\<lambda>y. y = mask_id env) row)"
      using count_nth_tail [of "cls ! i + num_embeddings env" row "mask_id env"]
      by (simp only: inp row_def [symmetric] lr)
    also have "\<dots> = length (filter id (mc_mask r ! i))"
      unfolding row_def
      by (rule count_where_mask) (simp_all add: len_mask len_tok distinct_mask)
    finally show ?thesis
      by (simp only: cnt)
  qed
  show ?case
    using 1(1) cnt cnt_inp unfolding x_def by blast
qed

theorem masked_count_witness:
  "is_tensor 1 4 [[5, 6, 7, 8 :: i64]] \<and> (1::nat) \<le> 4 \<and> (4::nat) \<le> 2 ^ 24 \<and>
   length [2 :: i64] = 1 \<and> (0::nat) < 1 \<and>
   (\<exists>r g'. mask_construction (example_env []) [[5, 6, 7, 8]] [2] example_generator = Inr (r, g') \<and>
      mc_mask_prob r ! 0 = 1 / 2 \<and>
      int (length (filter id (mc_mask r ! 0))) = 2 \<and>
      int (length (filter (\<lambda>j. mc_input_ids r ! 0 ! j = 200) [1..<4 + 1])) = 2)"
proof -
  have h: "is_tensor 1 4 [[5, 6, 7, 8 :: i64]]"
    by (simp add: is_tensor_def)
  have b: "(4::nat) \<le> 2 ^ 24"
    by simp
  from masked_count [OF h _ b, of "[2]" 0 "example_env []" example_generator]
  obtain r g' where
    run: "mask_construction (example_env []) [[5, 6, 7, 8]] [2] example_generator = Inr (r, g')"
    and cnt: "int (length (filter id (mc_mask r ! 0)))
       = spec_clamp (round_half_even (f32_mul (to_f32 (real 4)) (mc_mask_prob r ! 0))) 1 (int 4)"
    and inp: "list_all (\<lambda>t. t \<noteq> mask_id (example_env [])) ([[5, 6, 7, 8]] ! 0) \<longrightarrow>
       int (length (filter (\<lambda>j. mc_input_ids r ! 0 ! j = mask_id (example_env [])) [1..<4 + 1]))
         = spec_clamp (round_half_even (f32_mul (to_f32 (real 4)) (mc_mask_prob r ! 0))) 1 (int 4)"
    by auto
  have p: "mc_mask_prob r ! 0 = 1 / 2"
    using example_run by (simp add: run)
  have c: "spec_clamp (round_half_even (f32_mul (to_f32 (real 4)) (mc_mask_prob r ! 0))) 1 (int 4) = 2"
    by (simp add: p spec_clamp_def f32_mul_def)
  have "int (length (filter (\<lambda>j. mc_input_ids r ! 0 ! j = 200) [1..<4 + 1])) = 2"
    using inp unfolding c by (simp add: example_env_def)
  then show ?thesis
    using h run p cnt unfolding c by auto
qed

text \<open>
  The claim of C1 as stated fails twice. With mask token id 5 the token 5 of the image
  counts as well: three positions of \<open>input_ids\<close> hold the mask token id, against a clamped
  count of 2. And with \<open>L = 5\<close> and the float32 value nearest to 0.7 as \<open>mask_prob\<close>, four
  positions are masked, where rounding the exact product \<open>3.49999994\<close> gives 3: the
  product that is rounded is the float32 product, which is \<open>3.5\<close>.
\<close>

theorem masked_count_counterexample:
  "map_sum id fst
     (mask_construction (example_env [] \<lparr>mask_id := 5\<rparr>) [[5, 6, 7, 8]] [2] example_generator)
     = Inr \<lparr>mc_input_ids = [[102, 5, 5, 7, 5]], mc_labels = [[- 100, - 100, 6, - 100, 8]],
            mc_mask_prob = [1 / 2], mc_num_token_masked = [2],
            mc_mask = [[False, True, False, True]]\<rparr> \<and>
   int (count_list (tl [102, 5, 5, 7, 5 :: i64]) 5) = 3 \<and>
   spec_clamp (round_half_even (real 4 * (1 / 2))) 1 (int 4) = 2 \<and>
   map_sum id fst
     (mask_construction (example_schedule_env (to_f32 (7 / 10))) [[5, 6, 7, 8, 9]] [2]
        example_generator)
     = Inr \<lparr>mc_input_ids = [[102, 200, 200, 200, 200, 9]],
            mc_labels = [[- 100, 5, 6, 7, 8, - 100]],
            mc_mask_prob = [11744051 / 16777216], mc_num_token_masked = [4],
            mc_mask = [[True, True, True, True, False]]\<rparr> \<and>
   int (count_list (tl [102, 200, 200, 200, 200, 9 :: i64]) 200) = 4 \<and>
   spec_clamp (round_half_even (real 5 * (11744051 / 16777216))) 1 (int 5) = 3"
  by (simp add: run_defs example_env_def example_schedule_env_def
      spec_cosine_schedule_two_thirds spec_clamp_def
      to_f32_eval [of _ "- 1"] to_f32_eval [of _ 1])

text \<open>
  C2. At every token position \<open>j\<close> in \<open>1..L\<close> of every image: a masked position carries the
  mask token id as input and the original token \<open>tokens[i, j-1]\<close> as label; an unmasked
  position carries the original token as input and \<open>-100\<close> as label. With every token in
  \<open>[0, V)\<close> and the mask token id outside, the input equals the mask token id exactly at
  the masked positions.
\<close>

theorem masked_and_unmasked_positions:
  assumes "is_tensor N L image_tokens" and "length cls = N"
    and "list_all (list_all (\<lambda>t. 0 \<le> sint t \<and> sint t < sint (num_embeddings env))) image_tokens"
    and "\<not> (0 \<le> sint (mask_id env) \<and> sint (mask_id env) < sint (num_embeddings env))"
    and "i < N" and "1 \<le> j" and "j \<le> L"
  shows "\<exists>r g'. mask_construction env image_tokens cls g = Inr (r, g') \<and>
     (mc_mask r ! i ! (j - 1) \<longrightarrow>
        mc_input_ids r ! i ! j = mask_id env \<and> mc_labels r ! i ! j = image_tokens ! i ! (j - 1)) \<and>
     (\<not> mc_mask r ! i ! (j - 1) \<longrightarrow>
        mc_input_ids r ! i ! j = image_tokens ! i ! (j - 1) \<and> mc_labels r ! i ! j = - 100) \<and>
     (mc_input_ids r ! i ! j = mask_id env \<longleftrightarrow> mc_mask r ! i ! (j - 1))"
proof (rule mask_construction_rows [OF assms(1,2), of env g], goal_cases)
  case (1 r)
  obtain j' where j: "j = Suc j'" and j': "j' < L"
    using \<open>1 \<le> j\<close> \<open>j \<le> L\<close> by (cases j) auto
  have lm: "length (mc_mask r ! i) = L"
    using 1(9) [OF \<open>i < N\<close>] by (rule length_mask_row)
  have lt: "length (image_tokens ! i) = L"
    using assms(1) \<open>i < N\<close> by (rule is_tensor_nth)
  have "image_tokens ! i \<in> set image_tokens"
    using assms(1) \<open>i < N\<close> by (simp add: is_tensor_def)
  moreover have "image_tokens ! i ! j' \<in> set (image_tokens ! i)"
    using lt j' by simp
  ultimately have range: "0 \<le> sint (image_tokens ! i ! j')
      \<and> sint (image_tokens ! i ! j') < sint (num_embeddings env)"
    using assms(3) by (simp add: list_all_iff)
  have ne: "image_tokens ! i ! j' \<noteq> mask_id env"
    using range assms(4) by auto
  have "mc_input_ids r ! i ! j = (if mc_mask r ! i ! j' then mask_id env else image_tokens ! i ! j')"
    using 1(10) [OF \<open>i < N\<close>] j j' lm lt by simp
  moreover have "mc_labels r ! i ! j = (if mc_mask r ! i ! j' then image_tokens ! i ! j' else - 100)"
    using 1(11) [OF \<open>i < N\<close>] j j' lm lt by simp
  ultimately show ?case
    using 1(1) ne j by auto
qed

theorem masked_and_unmasked_positions_witness:
  "is_tensor 1 4 [[5, 6, 7, 8 :: i64]] \<and> length [2 :: i64] = 1 \<and>
   list_all (list_all (\<lambda>t. 0 \<le> sint t \<and> sint t < sint (num_embeddings (example_env []))))
     [[5, 6, 7, 8 :: i64]] \<and>
   \<not> (0 \<le> sint (mask_id (example_env [])) \<and>
        sint (mask_id (example_env [])) < sint (num_embeddings (example_env []))) \<and>
   (0::nat) < 1 \<and> (1::nat) \<le> 2 \<and> (2::nat) \<le> 4 \<and>
   (\<exists>r g'. mask_construction (example_env []) [[5, 6, 7, 8]] [2] example_generator = Inr (r, g') \<and>
      mc_mask r ! 0 ! 1 \<and> mc_input_ids r ! 0 ! 2 = 200 \<and> mc_labels r ! 0 ! 2 = 6)"
proof -
  have range: "list_all (list_all (\<lambda>t. 0 \<le> sint t \<and> sint t < sint (num_embeddings (example_env []))))
      [[5, 6, 7, 8 :: i64]]"
    by (simp add: example_env_def)
  have outside: "\<not> (0 \<le> sint (mask_id (example_env [])) \<and>
      sint (mask_id (example_env [])) < sint (num_embeddings (example_env [])))"
    by (simp add: example_env_def)
  from masked_and_unmasked_positions [OF example_tensor _ range outside, of "[2]" 0 2 example_generator]
  obtain r g' where
    run: "mask_construction (example_env []) [[5, 6, 7, 8]] [2] example_generator = Inr (r, g')"
    and masked: "mc_mask r ! 0 ! (2 - 1) \<longrightarrow>
        mc_input_ids r ! 0 ! 2 = mask_id (example_env []) \<and>
        mc_labels r ! 0 ! 2 = [[5, 6, 7, 8]] ! 0 ! (2 - 1)"
    by auto
  have m: "mc_mask r ! 0 ! 1"
    using example_run by (simp add: run)
  show ?thesis
    using example_tensor range outside run m masked by (simp add: example_env_def)
qed

text \<open>
  C3. For \<open>N\<close> images with token sequences of length \<open>L\<close>, \<open>input_ids\<close> and \<open>labels\<close> have
  shape \<open>(N, L+1)\<close>; slot 0 of the input is the class id shifted by the vocabulary size
  \<open>V\<close> (an int64 addition) and slot 0 of the labels is \<open>-100\<close>.
\<close>

theorem shapes_and_class_slot:
  assumes "is_tensor N L image_tokens" and "length cls = N"
  shows "\<exists>r g'. mask_construction env image_tokens cls g = Inr (r, g') \<and>
     is_tensor N (L + 1) (mc_input_ids r) \<and> is_tensor N (L + 1) (mc_labels r) \<and>
     (\<forall>i<N. mc_input_ids r ! i ! 0 = cls ! i + num_embeddings env \<and> mc_labels r ! i ! 0 = - 100)"
proof (rule mask_construction_rows [OF assms, of env g], goal_cases)
  case (1 r)
  have len: "length (mc_mask r ! i) = L \<and> length (image_tokens ! i) = L" if "i < N" for i
    using length_mask_row [OF 1(9) [OF that]] is_tensor_nth [OF assms(1) that] by simp
  have "is_tensor N (L + 1) (mc_input_ids r)"
    using 1(2) 1(10) len by (simp add: is_tensor_def list_all_length)
  moreover have "is_tensor N (L + 1) (mc_labels r)"
    using 1(3) 1(11) len by (simp add: is_tensor_def list_all_length)
  moreover have "\<forall>i<N. mc_input_ids r ! i ! 0 = cls ! i + num_embeddings env \<and> mc_labels r ! i ! 0 = - 100"
    using 1(10) 1(11) by simp
  ultimately show ?case
    using 1(1) by blast
qed

theorem shapes_and_class_slot_witness:
  "is_tensor 1 4 [[5, 6, 7, 8 :: i64]] \<and> length [2 :: i64] = 1 \<and>
   (\<exists>r g'. mask_construction (example_env []) [[5, 6, 7, 8]] [2] example_generator = Inr (r, g') \<and>
      is_tensor 1 5 (mc_input_ids r) \<and> is_tensor 1 5 (mc_labels r) \<and>
      mc_input_ids r ! 0 ! 0 = 102 \<and> mc_labels r ! 0 ! 0 = - 100)"
  using example_tensor
    shapes_and_class_slot [OF example_tensor, of "[2]" "example_env []" example_generator]
  by (simp add: example_env_def)




text \<open>
  C5. Two mask constructions on the same inputs whose generators agree on the draws that
  are read (the \<open>N\<close> timesteps and the \<open>N \<times> L\<close> per-position uniform values) produce the
  same outputs, whatever the generators would produce afterwards: the same
  \<open>input_ids\<close>, \<open>labels\<close>, \<open>mask_prob\<close> and mask, or the same error.
\<close>

theorem same_draws_same_outputs:
  assumes "shape image_tokens = (n, l)" and "\<forall>k<n + n * l. g1 k = g2 k"
  shows "map_sum id fst (mask_construction env image_tokens cls g1)
       = map_sum id fst (mask_construction env image_tokens cls g2)"
proof -
  have ts: "fst (rand n g1) = fst (rand n g2)"
    using assms(2) by (rule rand_cong)
  have us: "fst (rand2 n l (snd (rand n g1))) = fst (rand2 n l (snd (rand n g2)))"
    using assms(2) by (rule rand2_cong)
  show ?thesis
    by (simp add: mask_construction_def assms(1) Let_def split_def ts us split: sum.splits)
qed

theorem same_draws_same_outputs_witness:
  "shape [[5, 6, 7, 8 :: i64]] = (1, 4) \<and>
   map example_generator [0..<1 + 1 * 4]
     = map (\<lambda>k. if k < 5 then example_generator k else 0) [0..<1 + 1 * 4] \<and>
   example_generator 5 \<noteq> (\<lambda>k. if k < 5 then example_generator k else 0) 5 \<and>
   map_sum id fst (mask_construction (example_env []) [[5, 6, 7, 8]] [2]
       (\<lambda>k. if k < 5 then example_generator k else 0))
     = Inr \<lparr>mc_input_ids = [[102, 5, 200, 7, 200]], mc_labels = [[- 100, - 100, 6, - 100, 8]],
            mc_mask_prob = [1 / 2], mc_num_token_masked = [2],
            mc_mask = [[False, True, False, True]]\<rparr>"
proof -
  have sh: "shape [[5, 6, 7, 8 :: i64]] = (1, 4)"
    by (simp add: shape_def)
  have ag: "\<forall>k<1 + 1 * 4. example_generator k = (\<lambda>k. if k < 5 then example_generator k else 0) k"
    by simp
  have later: "example_generator 5 \<noteq> (\<lambda>k. if k < 5 then example_generator k else 0) 5"
    by (simp add: eval_nat_numeral)
  show ?thesis
    using sh ag later same_draws_same_outputs [OF sh ag, of "example_env []" "[2]"] example_run
    by simp
qed

text \<open>
  C6. The claim: with token sequence length \<open>L = 0\<close> the program raises an error instead of
  proceeding with mask construction. The code has no such check. As amended: on a token
  tensor of shape \<open>(N, 0)\<close> with \<open>N\<close> class ids no error is raised; mask construction gives
  every image the input \<open>[class_id + V]\<close> and the label \<open>[-100]\<close>, the mask is empty although
  \<^verbatim>\<open>num_token_masked\<close> is 1, and \<^verbatim>\<open>train_step\<close> returns the loss of the model on these.
\<close>

theorem seq_len_zero_proceeds:
  assumes "is_tensor N 0 (vq_encode env (pixel_values b))" and "length (class_id b) = N"
  shows "\<exists>r g'.
     mask_construction env (vq_encode env (pixel_values b)) (class_id b) g = Inr (r, g') \<and>
     mc_input_ids r = map (\<lambda>c. [c + num_embeddings env]) (class_id b) \<and>
     mc_labels r = replicate N [- 100] \<and>
     mc_mask r = replicate N [] \<and>
     mc_num_token_masked r = replicate N 1 \<and>
     (\<exists>avg_loss avg_masking_rate logged.
        train_step env b log_first_batch g
          = Inr ((model_loss env (mc_input_ids r) (mc_labels r), avg_loss, avg_masking_rate),
                 logged, g'))"
proof (rule mask_construction_rows [OF assms, of env g], goal_cases)
  case (1 r)
  have tok: "vq_encode env (pixel_values b) ! i = []" if "i < N" for i
    using is_tensor_nth [OF assms(1) that] by simp
  have msk: "mc_mask r ! i = []" if "i < N" for i
    using 1(9) [OF that] by (simp add: argsort_def)
  have "mc_input_ids r = map (\<lambda>c. [c + num_embeddings env]) (class_id b)"
    using 1(2) 1(10) assms(2) by (intro nth_equalityI) (simp_all add: tok msk)
  moreover have "mc_labels r = replicate N [- 100]"
    using 1(3) 1(11) by (intro nth_equalityI) (simp_all add: tok msk)
  moreover have "mc_mask r = replicate N []"
    using 1(6) msk by (intro nth_equalityI) simp_all
  moreover have "mc_num_token_masked r = replicate N 1"
    using 1(5) 1(8)
    by (intro nth_equalityI) (simp_all add: tensor_round_def f32_mul_def clamp_min_def)
  moreover have "\<exists>avg_loss avg_masking_rate logged.
        train_step env b log_first_batch g
          = Inr ((model_loss env (mc_input_ids r) (mc_labels r), avg_loss, avg_masking_rate),
                 logged, \<lambda>k. g (N + (N * 0 + k)))"
    by (simp add: train_step_def 1(1) Let_def)
  ultimately show ?case
    using 1(1) by blast
qed

theorem seq_len_zero_proceeds_witness:
  "is_tensor 1 0 (vq_encode (example_env [[]]) (pixel_values \<lparr>pixel_values = (), class_id = [3]\<rparr>)) \<and>
   length (class_id \<lparr>pixel_values = (), class_id = [3 :: i64]\<rparr>) = 1 \<and>
   (\<exists>r g'. mask_construction (example_env [[]]) [[]] [3] example_generator = Inr (r, g') \<and>
      mc_input_ids r = [[103]] \<and> mc_labels r = [[- 100]] \<and> mc_mask r = [[]] \<and>
      mc_num_token_masked r = [1])"
proof -
  have t: "is_tensor 1 0 (vq_encode (example_env [[]]) (pixel_values \<lparr>pixel_values = (), class_id = [3]\<rparr>))"
    by (simp add: is_tensor_def example_env_def)
  have c: "length (class_id \<lparr>pixel_values = (), class_id = [3 :: i64]\<rparr>) = 1"
    by simp
  show ?thesis
    using t c seq_len_zero_proceeds [OF t c, of example_generator False]
    by (auto simp: example_env_def)
qed

text \<open>
  The claim of C6 as stated fails: one image with no token, and \<^verbatim>\<open>train_step\<close> returns.
\<close>

theorem seq_len_zero_counterexample:
  "shape (vq_encode (example_env [[]]) ()) = (1, 0) \<and>
   map_sum id fst (mask_construction (example_env [[]]) [[]] [3] example_generator)
     = Inr \<lparr>mc_input_ids = [[103]], mc_labels = [[- 100]], mc_mask_prob = [1 / 2],
            mc_num_token_masked = [1], mc_mask = [[]]\<rparr> \<and>
   map_sum id fst
     (train_step (example_env [[]]) \<lparr>pixel_values = (), class_id = [3]\<rparr> False example_generator)
     = Inr (1, Some 1, Some (1 / 2))"
  by (simp add: train_step_def run_defs example_env_def spec_cosine_schedule_two_thirds
      mean_def repeat_vec_def)

text \<open>
  C7. The claim: a configured mask token id inside the vocabulary range \<open>[0, V)\<close> is rejected
  at setup. \<^verbatim>\<open>main\<close> compares the two nowhere. As amended: for every mask token id \<open>m\<close>,
  inside \<open>[0, V)\<close> or not, setup gives the same result except that the environment of
  \<^verbatim>\<open>train_step\<close> has \<open>mask_id = m\<close>; setup raises exactly when the image or the label column
  cannot be selected.
\<close>

theorem main_setup_keeps_any_mask_token_id:
  "main_setup (inp\<lparr>in_mask_token_id := m\<rparr>)
     = map_sum id (\<lambda>(env, cols). (env\<lparr>mask_id := m\<rparr>, cols)) (main_setup inp) \<and>
   isl (main_setup inp)
     = (isl (select_column (dc_image_column (in_datasets_config inp))
               (dataset_name_mapping (dc_path (in_datasets_config inp))) (in_column_names inp) 0) \<or>
        isl (select_column (dc_label_column (in_datasets_config inp))
               (dataset_name_mapping (dc_path (in_datasets_config inp))) (in_column_names inp) 1))"
  by (simp add: main_setup_def Let_def split: sum.splits)

text \<open>
  The claim of C7 as stated fails: mask token id 5 with \<open>V = 100\<close> passes setup, and the
  token 5 of the image is then indistinguishable from a masked position.
\<close>

theorem mask_token_id_in_vocabulary_counterexample:
  "0 \<le> sint (in_mask_token_id (example_inputs 5)) \<and>
   sint (in_mask_token_id (example_inputs 5)) < sint (in_num_embeddings (example_inputs 5)) \<and>
   main_setup (example_inputs 5)
     = Inr (example_env [[5, 6, 7, 8]] \<lparr>mask_id := 5\<rparr>, ''image'', ''label'') \<and>
   map_sum id fst
     (mask_construction (example_env [[5, 6, 7, 8]] \<lparr>mask_id := 5\<rparr>) [[5, 6, 7, 8]] [2]
        example_generator)
     = Inr \<lparr>mc_input_ids = [[102, 5, 5, 7, 5]], mc_labels = [[- 100, - 100, 6, - 100, 8]],
            mc_mask_prob = [1 / 2], mc_num_token_masked = [2],
            mc_mask = [[False, True, False, True]]\<rparr>"
  by (simp add: main_setup_def example_inputs_def example_env_def select_column_def
      dataset_name_mapping_def run_defs spec_cosine_schedule_two_thirds)

text \<open>
  C8. The mask depends on the shape and the draws only: two batches of the same shape
  \<open>(N, L)\<close>, with any token values and class ids, get the same boolean mask (and the same
  masking probabilities) from the same generator.
\<close>

theorem mask_independent_of_tokens:
  assumes "is_tensor N L tokens1" and "is_tensor N L tokens2"
    and "length cls1 = N" and "length cls2 = N"
  shows "\<exists>r1 r2 g'. mask_construction env tokens1 cls1 g = Inr (r1, g') \<and>
     mask_construction env tokens2 cls2 g = Inr (r2, g') \<and>
     mc_mask r1 = mc_mask r2 \<and> mc_mask_prob r1 = mc_mask_prob r2"
proof (rule mask_construction_rows [OF assms(1,3), of env g], goal_cases)
  case a: (1 r1)
  show ?case
  proof (rule mask_construction_rows [OF assms(2,4), of env g], goal_cases)
    case b: (1 r2)
    have p: "mc_mask_prob r1 ! i = mc_mask_prob r2 ! i" if "i < N" for i
      using a(7) [OF that] b(7) [OF that] by simp
    then have k: "mc_num_token_masked r1 ! i = mc_num_token_masked r2 ! i" if "i < N" for i
      using a(8) [OF that] b(8) [OF that] that by simp
    have m: "mc_mask r1 ! i = mc_mask r2 ! i" if "i < N" for i
      using a(9) [OF that] b(9) [OF that] k [OF that] by simp
    have "mc_mask r1 = mc_mask r2"
      using a(6) b(6) m by (intro nth_equalityI) simp_all
    moreover have "mc_mask_prob r1 = mc_mask_prob r2"
      using a(4) b(4) p by (intro nth_equalityI) simp_all
    ultimately show ?case
      using a(1) b(1) by blast
  qed
qed

theorem mask_independent_of_tokens_witness:
  "is_tensor 1 4 [[5, 6, 7, 8 :: i64]] \<and> is_tensor 1 4 [[1, 1, 1, 1 :: i64]] \<and>
   length [2 :: i64] = 1 \<and> length [9 :: i64] = 1 \<and>
   (\<exists>r2 g'. mask_construction (example_env []) [[1, 1, 1, 1]] [9] example_generator = Inr (r2, g') \<and>
      mc_mask r2 = [[False, True, False, True]] \<and> mc_mask_prob r2 = [1 / 2])"
proof -
  have t2: "is_tensor 1 4 [[1, 1, 1, 1 :: i64]]"
    by (simp add: is_tensor_def)
  from mask_independent_of_tokens [OF example_tensor t2, of "[2]" "[9]" "example_env []" example_generator]
  obtain r1 r2 g' where
    run1: "mask_construction (example_env []) [[5, 6, 7, 8]] [2] example_generator = Inr (r1, g')"
    and run2: "mask_construction (example_env []) [[1, 1, 1, 1]] [9] example_generator = Inr (r2, g')"
    and same: "mc_mask r1 = mc_mask r2" "mc_mask_prob r1 = mc_mask_prob r2"
    by auto
  have "mc_mask r1 = [[False, True, False, True]]" "mc_mask_prob r1 = [1 / 2]"
    using example_run by (simp_all add: run1)
  then show ?thesis
    using example_tensor t2 run2 same by simp
qed



text \<open>
  C10. \<^verbatim>\<open>eval_step\<close> returns the \<^verbatim>\<open>avg_loss\<close> component of \<^verbatim>\<open>train_step\<close> called with
  \<^verbatim>\<open>log_first_batch\<close> false: the loss of the model on inputs masked by the same
  stochastic mask construction, drawn from the generator, with nothing logged.
\<close>

theorem eval_step_refines_train_step:
  "map_sum id fst (eval_step env b g)
     = map_sum id (\<lambda>((loss, avg_loss, avg_masking_rate), logged, g'). avg_loss)
         (train_step env b False g) \<and>
   eval_step env b g
     = (case mask_construction env (vq_encode env (pixel_values b)) (class_id b) g of
          Inl e \<Rightarrow> Inl e
        | Inr (mc, g') \<Rightarrow>
            Inr (mean (gather env (replicate (cfg_batch_size env)
                        (model_loss env (mc_input_ids mc) (mc_labels mc)))), [], g'))"
  by (simp add: eval_step_def train_step_def Let_def split: sum.splits prod.splits)

end
